theory Spec2Isabelle
  imports Main
begin

section \<open>JavaScript values and the store\<close>

text \<open>
  The invariants of \<^verbatim>\<open>packages/ui-predicate-core/src/invariants.js\<close> receive
  JavaScript values. Primitives are values of their own; arrays and objects live in a
  store and are denoted by their address, so that two objects with the same content are
  still two objects. The invariants only read the store. Functions, exotic objects
  (without prototype) and extra properties on arrays are left out of the universe;
  numbers are integers (no invariant computes with them).
\<close>

type_synonym addr = nat

datatype jsval =
    JSUndefined
  | JSNull
  | JSBoolean bool
  | JSNumber int
  | JSString string
  | JSRef addr

type_synonym js_properties = "(string \<times> jsval) list"

datatype jsobj =
    JSArray "jsval list"
  | JSObject js_properties

type_synonym heap = "addr \<Rightarrow> jsobj option"

text \<open>\<^verbatim>\<open>Array.isArray(v)\<close> and \<^verbatim>\<open>v.length\<close> of an array.\<close>

fun Array_isArray :: "heap \<Rightarrow> jsval \<Rightarrow> bool" where
  "Array_isArray h (JSRef a) = (case h a of Some (JSArray xs) \<Rightarrow> True | _ \<Rightarrow> False)"
| "Array_isArray h v = False"

fun array_length :: "heap \<Rightarrow> jsval \<Rightarrow> nat" where
  "array_length h (JSRef a) = (case h a of Some (JSArray xs) \<Rightarrow> length xs | _ \<Rightarrow> 0)"
| "array_length h v = 0"

text \<open>
  Ramda's \<^verbatim>\<open>is(Object, v)\<close>: true of every object and array, false of every
  primitive, of \<^verbatim>\<open>null\<close> and of \<^verbatim>\<open>undefined\<close>.
\<close>

fun is_Object :: "jsval \<Rightarrow> bool" where
  "is_Object (JSRef a) = True"
| "is_Object v = False"

text \<open>
  The property read \<^verbatim>\<open>v.k\<close>, where it does not throw: a missing property reads
  \<^verbatim>\<open>undefined\<close>.
\<close>

fun get_property :: "heap \<Rightarrow> jsval \<Rightarrow> string \<Rightarrow> jsval" where
  "get_property h (JSRef a) k =
     (case h a of
        Some (JSObject ps) \<Rightarrow> (case map_of ps k of Some v \<Rightarrow> v | None \<Rightarrow> JSUndefined)
      | _ \<Rightarrow> JSUndefined)"
| "get_property h v k = JSUndefined"

text \<open>\<^verbatim>\<open>Object.keys(o)\<close> of a plain object, and \<^verbatim>\<open>keys.includes(v)\<close>.\<close>

definition Object_keys :: "js_properties \<Rightarrow> string list" where
  "Object_keys ps = remdups (map fst ps)"

definition array_includes :: "string list \<Rightarrow> jsval \<Rightarrow> bool" where
  "array_includes ks v = (v \<in> set (map JSString ks))"

section \<open>The error taxonomy and the outcome of an invariant\<close>

text \<open>
  Modelled from the spec: the \<^verbatim>\<open>errors\<close> module injected into the invariants is not
  among the sources. The spec gives it as a closed, flat set of ten failure kinds, each
  optionally carrying a diagnostic string; the kinds are the ten names that
  \<^verbatim>\<open>invariants.js\<close> constructs with \<^verbatim>\<open>new errors.<Name>(...)\<close>.
\<close>

datatype error_kind =
    errors_CompoundPredicateMustHaveAtLeastOneSubPredicate
  | errors_InvalidPredicateType
  | errors_RootPredicateMustBeACompoundPredicate
  | errors_PredicateMustBeAComparisonPredicate
  | errors_AddCurrentlyOnlySupportAfterInsertion
  | errors_TargetMustReferToADefinedType
  | errors_Target_idMustReferToADefinedTarget
  | errors_Operator_idMustReferToADefinedOperator
  | errors_ForbiddenCannotRemoveRootCompoundPredicate
  | errors_ForbiddenCannotRemoveLastComparisonPredicate

datatype error = Error (kind: error_kind) (message: "string option")

text \<open>
  Every invariant returns a promise that is already settled: \<^verbatim>\<open>Promise.reject(e)\<close>
  is \<open>Inl e\<close>, \<^verbatim>\<open>Promise.resolve(v)\<close> is \<open>Inr v\<close>, and \<^verbatim>\<open>Promise.resolve()\<close>
  resolves with \<^verbatim>\<open>undefined\<close>.
\<close>

type_synonym 'a promise = "error + 'a"

abbreviation Promise_reject :: "error \<Rightarrow> 'a promise" where
  "Promise_reject \<equiv> Inl"

abbreviation Promise_resolve :: "'a \<Rightarrow> 'a promise" where
  "Promise_resolve \<equiv> Inr"

section \<open>The collaborators handed to the invariants\<close>

text \<open>
  Modelled from the spec: the tree-node implementation, which supplies the variant-check
  capabilities, is not among the sources. \<^verbatim>\<open>CompoundPredicate\<close> and
  \<^verbatim>\<open>ComparisonPredicate\<close> are passed in by the caller, and the invariants call
  their \<^verbatim>\<open>.is(node)\<close> only: the field \<open>variant_is\<close>. The field \<open>subtree\<close>
  stands for the full traversal of the implementation: the nodes of the subtree rooted at
  a node, the node itself included, one entry per visit. Only the model of the structural
  rule below reads it.
\<close>

record dataclass =
  variant_is :: "jsval \<Rightarrow> bool"
  subtree :: "jsval \<Rightarrow> jsval list"

text \<open>
  The \<^verbatim>\<open>rules\<close> module is injected too
  (\<^verbatim>\<open>module.exports = ({ errors, rules }) => ...\<close>); the fields have the arguments
  of the two call sites.
\<close>

record rules =
  predicateToRemoveIsRootPredicate :: "jsval \<Rightarrow> jsval \<Rightarrow> bool"
  predicateToRemoveIsTheLastComparisonPredicate ::
    "jsval \<Rightarrow> dataclass \<Rightarrow> dataclass \<Rightarrow> bool"

text \<open>A target carries the two identifiers that the diagnostic message prints.\<close>

record target =
  target_id :: jsval
  type_id :: jsval

section \<open>The invariants\<close>

definition CompoundPredicateMustHaveAtLeastOneSubPredicate ::
    "heap \<Rightarrow> jsval \<Rightarrow> jsval promise" where
  "CompoundPredicateMustHaveAtLeastOneSubPredicate h predicates =
     (if \<not> Array_isArray h predicates \<or> array_length h predicates = 0
      then Promise_reject (Error errors_CompoundPredicateMustHaveAtLeastOneSubPredicate None)
      else Promise_resolve JSUndefined)"

definition PredicateTypeMustBeValid :: "jsval \<Rightarrow> js_properties \<Rightarrow> jsval promise" where
  "PredicateTypeMustBeValid type acceptedTypes =
     (if \<not> array_includes (Object_keys acceptedTypes) type
      then Promise_reject (Error errors_InvalidPredicateType None)
      else Promise_resolve JSUndefined)"

definition RootPredicateMustBeACompoundPredicate ::
    "jsval \<Rightarrow> dataclass \<Rightarrow> jsval promise" where
  "RootPredicateMustBeACompoundPredicate root CompoundPredicate =
     (if \<not> variant_is CompoundPredicate root
      then Promise_reject (Error errors_RootPredicateMustBeACompoundPredicate None)
      else Promise_resolve root)"

definition PredicateMustBeAComparisonPredicate :: "heap \<Rightarrow> jsval \<Rightarrow> jsval promise" where
  "PredicateMustBeAComparisonPredicate h root =
     (if \<not> is_Object root \<or> get_property h root ''$_type'' \<noteq> JSString ''ComparisonPredicate''
      then Promise_reject (Error errors_PredicateMustBeAComparisonPredicate None)
      else Promise_resolve JSUndefined)"

definition AddOnlySupportsAfter :: "jsval \<Rightarrow> jsval promise" where
  "AddOnlySupportsAfter how =
     (if how \<noteq> JSString ''after''
      then Promise_reject (Error errors_AddCurrentlyOnlySupportAfterInsertion None)
      else Promise_resolve JSUndefined)"

text \<open>
  \<^verbatim>\<open>JSON.stringify\<close> belongs to the runtime and is a parameter. An
  \<^verbatim>\<open>Option<T>\<close> is an \<open>option\<close>: \<^verbatim>\<open>isNone()\<close> holds of \<open>None\<close>, and
  \<^verbatim>\<open>value()\<close> of \<open>Some v\<close> is \<open>v\<close>.
\<close>

definition TargetMustReferToADefinedType ::
    "(jsval \<Rightarrow> string) \<Rightarrow> jsval option \<Rightarrow> target \<Rightarrow> jsval promise" where
  "TargetMustReferToADefinedType JSON_stringify type target =
     (case type of
        None \<Rightarrow>
          Promise_reject (Error errors_TargetMustReferToADefinedType
            (Some (''target '' @ JSON_stringify (target_id target)
                   @ '' does not refer to a defined type, target.type_id=''
                   @ JSON_stringify (type_id target))))
      | Some v \<Rightarrow> Promise_resolve v)"

definition Target_idMustReferToADefinedTarget ::
    "jsval option \<Rightarrow> (jsval option) promise" where
  "Target_idMustReferToADefinedTarget target =
     (if target = None
      then Promise_reject (Error errors_Target_idMustReferToADefinedTarget None)
      else Promise_resolve target)"

definition Operator_idMustReferToADefinedOperator ::
    "jsval option \<Rightarrow> (jsval option) promise" where
  "Operator_idMustReferToADefinedOperator operator =
     (if operator = None
      then Promise_reject (Error errors_Operator_idMustReferToADefinedOperator None)
      else Promise_resolve operator)"

definition RemovePredicateMustDifferFromRootPredicate ::
    "rules \<Rightarrow> jsval \<Rightarrow> jsval \<Rightarrow> jsval promise" where
  "RemovePredicateMustDifferFromRootPredicate rules root predicateToRemove =
     (if predicateToRemoveIsRootPredicate rules root predicateToRemove
      then Promise_reject (Error errors_ForbiddenCannotRemoveRootCompoundPredicate None)
      else Promise_resolve predicateToRemove)"

definition RemovePredicateCannotBeTheLastComparisonPredicate ::
    "rules \<Rightarrow> jsval \<Rightarrow> jsval \<Rightarrow> dataclass \<Rightarrow> dataclass \<Rightarrow> jsval promise" where
  "RemovePredicateCannotBeTheLastComparisonPredicate rules root predicateToRemove
       CompoundPredicate ComparisonPredicate =
     (if variant_is ComparisonPredicate predicateToRemove
         \<and> predicateToRemoveIsTheLastComparisonPredicate rules root
              CompoundPredicate ComparisonPredicate
      then Promise_reject (Error errors_ForbiddenCannotRemoveLastComparisonPredicate None)
      else Promise_resolve JSUndefined)"

section \<open>The structural rules\<close>

text \<open>
  Modelled from the spec: the \<^verbatim>\<open>rules\<close> module and the traversal of the tree are
  not among the sources. The ComparisonPredicate leaves reachable from a root are those
  that the full traversal of the root meets.
\<close>

definition comparison_leaves :: "dataclass \<Rightarrow> dataclass \<Rightarrow> jsval \<Rightarrow> jsval list" where
  "comparison_leaves CompoundPredicate ComparisonPredicate root =
     filter (variant_is ComparisonPredicate) (subtree CompoundPredicate root)"

text \<open>
  Modelled from the spec: the leaves that are left once a candidate is removed. In the
  spec's words the count leaves the candidate's own subtree out, since removal deletes
  the whole node with its descendants.
\<close>

definition leaves_left_after_removal ::
    "dataclass \<Rightarrow> dataclass \<Rightarrow> jsval \<Rightarrow> jsval \<Rightarrow> jsval list" where
  "leaves_left_after_removal CompoundPredicate ComparisonPredicate root candidate =
     filter (\<lambda>n. n \<notin> set (subtree CompoundPredicate candidate))
       (comparison_leaves CompoundPredicate ComparisonPredicate root)"

text \<open>
  Modelled from the spec: \<^verbatim>\<open>PredicateToRemoveIsRootPredicate(root, candidate)\<close> is
  true iff the candidate is reference-identical to the root. A node is the address of its
  object, so identity of reference is equality of values.
\<close>

definition spec_PredicateToRemoveIsRootPredicate :: "jsval \<Rightarrow> jsval \<Rightarrow> bool" where
  "spec_PredicateToRemoveIsRootPredicate root candidate = (candidate = root)"

text \<open>
  Modelled from the spec:
  \<^verbatim>\<open>PredicateToRemoveIsTheLastComparisonPredicate(root, candidate)\<close> is true iff
  removing the candidate would leave zero ComparisonPredicate leaves reachable from the
  root.
\<close>

definition spec_PredicateToRemoveIsTheLastComparisonPredicate ::
    "dataclass \<Rightarrow> dataclass \<Rightarrow> jsval \<Rightarrow> jsval \<Rightarrow> bool" where
  "spec_PredicateToRemoveIsTheLastComparisonPredicate CompoundPredicate ComparisonPredicate
       root candidate =
     (leaves_left_after_removal CompoundPredicate ComparisonPredicate root candidate = [])"

text \<open>
  Modelled from the spec: the \<^verbatim>\<open>rules\<close> module as the invariants call it. The call
  site of the second rule in \<^verbatim>\<open>invariants.js\<close> hands over the root and the two
  dataclasses and no candidate; asked about the root alone, "removing a
  ComparisonPredicate leaves none" is "the traversal of the root meets exactly one
  ComparisonPredicate".
\<close>

definition rules_spec :: rules where
  "rules_spec =
     \<lparr> predicateToRemoveIsRootPredicate = spec_PredicateToRemoveIsRootPredicate,
       predicateToRemoveIsTheLastComparisonPredicate =
         (\<lambda>root CompoundPredicate ComparisonPredicate.
            length (comparison_leaves CompoundPredicate ComparisonPredicate root) = 1) \<rparr>"

text \<open>The content of the object a value denotes; a primitive denotes none.\<close>

fun deref :: "heap \<Rightarrow> jsval \<Rightarrow> jsobj option" where
  "deref h (JSRef a) = h a"
| "deref h v = None"

text \<open>
  Modelled from the spec: the contract the spec intends for
  \<^verbatim>\<open>PredicateMustBeAComparisonPredicate\<close>, which is what the source's
  \<^verbatim>\<open>@todo use ComparisonPredicate.is instead\<close> asks for: the variant check of the
  tree-node implementation decides.
\<close>

definition PredicateMustBeAComparisonPredicate_intended ::
    "dataclass \<Rightarrow> jsval \<Rightarrow> jsval promise" where
  "PredicateMustBeAComparisonPredicate_intended ComparisonPredicate root =
     (if variant_is ComparisonPredicate root
      then Promise_resolve JSUndefined
      else Promise_reject (Error errors_PredicateMustBeAComparisonPredicate None))"

section \<open>The module as a whole\<close>

text \<open>
  One constructor per exported invariant, with its arguments; \<open>invariant_outcome\<close>
  is the call. Two invariants resolve with the \<^verbatim>\<open>Option\<close> they were given, the
  others with a plain value.
\<close>

datatype invariant_call =
    Call_CompoundPredicateMustHaveAtLeastOneSubPredicate jsval
  | Call_PredicateTypeMustBeValid jsval js_properties
  | Call_RootPredicateMustBeACompoundPredicate jsval dataclass
  | Call_PredicateMustBeAComparisonPredicate jsval
  | Call_AddOnlySupportsAfter jsval
  | Call_TargetMustReferToADefinedType "jsval option" target
  | Call_Target_idMustReferToADefinedTarget "jsval option"
  | Call_Operator_idMustReferToADefinedOperator "jsval option"
  | Call_RemovePredicateMustDifferFromRootPredicate jsval jsval
  | Call_RemovePredicateCannotBeTheLastComparisonPredicate jsval jsval dataclass dataclass

datatype resolved = Resolved jsval | Resolved_Option "jsval option"

fun invariant_name :: "invariant_call \<Rightarrow> string" where
  "invariant_name (Call_CompoundPredicateMustHaveAtLeastOneSubPredicate predicates) =
     ''CompoundPredicateMustHaveAtLeastOneSubPredicate''"
| "invariant_name (Call_PredicateTypeMustBeValid type acceptedTypes) =
     ''PredicateTypeMustBeValid''"
| "invariant_name (Call_RootPredicateMustBeACompoundPredicate root CompoundPredicate) =
     ''RootPredicateMustBeACompoundPredicate''"
| "invariant_name (Call_PredicateMustBeAComparisonPredicate root) =
     ''PredicateMustBeAComparisonPredicate''"
| "invariant_name (Call_AddOnlySupportsAfter how) = ''AddOnlySupportsAfter''"
| "invariant_name (Call_TargetMustReferToADefinedType type target) =
     ''TargetMustReferToADefinedType''"
| "invariant_name (Call_Target_idMustReferToADefinedTarget target) =
     ''Target_idMustReferToADefinedTarget''"
| "invariant_name (Call_Operator_idMustReferToADefinedOperator operator) =
     ''Operator_idMustReferToADefinedOperator''"
| "invariant_name (Call_RemovePredicateMustDifferFromRootPredicate root predicateToRemove) =
     ''RemovePredicateMustDifferFromRootPredicate''"
| "invariant_name (Call_RemovePredicateCannotBeTheLastComparisonPredicate root
       predicateToRemove CompoundPredicate ComparisonPredicate) =
     ''RemovePredicateCannotBeTheLastComparisonPredicate''"

fun invariant_outcome ::
    "rules \<Rightarrow> (jsval \<Rightarrow> string) \<Rightarrow> heap \<Rightarrow> invariant_call \<Rightarrow> resolved promise" where
  "invariant_outcome rules JSON_stringify h
       (Call_CompoundPredicateMustHaveAtLeastOneSubPredicate predicates) =
     map_sum id Resolved (CompoundPredicateMustHaveAtLeastOneSubPredicate h predicates)"
| "invariant_outcome rules JSON_stringify h (Call_PredicateTypeMustBeValid type acceptedTypes) =
     map_sum id Resolved (PredicateTypeMustBeValid type acceptedTypes)"
| "invariant_outcome rules JSON_stringify h
       (Call_RootPredicateMustBeACompoundPredicate root CompoundPredicate) =
     map_sum id Resolved (RootPredicateMustBeACompoundPredicate root CompoundPredicate)"
| "invariant_outcome rules JSON_stringify h (Call_PredicateMustBeAComparisonPredicate root) =
     map_sum id Resolved (PredicateMustBeAComparisonPredicate h root)"
| "invariant_outcome rules JSON_stringify h (Call_AddOnlySupportsAfter how) =
     map_sum id Resolved (AddOnlySupportsAfter how)"
| "invariant_outcome rules JSON_stringify h (Call_TargetMustReferToADefinedType type target) =
     map_sum id Resolved (TargetMustReferToADefinedType JSON_stringify type target)"
| "invariant_outcome rules JSON_stringify h (Call_Target_idMustReferToADefinedTarget target) =
     map_sum id Resolved_Option (Target_idMustReferToADefinedTarget target)"
| "invariant_outcome rules JSON_stringify h
       (Call_Operator_idMustReferToADefinedOperator operator) =
     map_sum id Resolved_Option (Operator_idMustReferToADefinedOperator operator)"
| "invariant_outcome rules JSON_stringify h
       (Call_RemovePredicateMustDifferFromRootPredicate root predicateToRemove) =
     map_sum id Resolved
       (RemovePredicateMustDifferFromRootPredicate rules root predicateToRemove)"
| "invariant_outcome rules JSON_stringify h
       (Call_RemovePredicateCannotBeTheLastComparisonPredicate root predicateToRemove
          CompoundPredicate ComparisonPredicate) =
     map_sum id Resolved
       (RemovePredicateCannotBeTheLastComparisonPredicate rules root predicateToRemove
          CompoundPredicate ComparisonPredicate)"

text \<open>
  Modelled from the spec: the "Fails with" column of the spec's table of invariants, a
  second definition that follows the spec's words, to be compared with what the code
  rejects with.
\<close>

fun spec_fails_with :: "invariant_call \<Rightarrow> error_kind" where
  "spec_fails_with (Call_CompoundPredicateMustHaveAtLeastOneSubPredicate predicates) =
     errors_CompoundPredicateMustHaveAtLeastOneSubPredicate"
| "spec_fails_with (Call_PredicateTypeMustBeValid type acceptedTypes) =
     errors_InvalidPredicateType"
| "spec_fails_with (Call_RootPredicateMustBeACompoundPredicate root CompoundPredicate) =
     errors_RootPredicateMustBeACompoundPredicate"
| "spec_fails_with (Call_PredicateMustBeAComparisonPredicate root) =
     errors_PredicateMustBeAComparisonPredicate"
| "spec_fails_with (Call_AddOnlySupportsAfter how) =
     errors_AddCurrentlyOnlySupportAfterInsertion"
| "spec_fails_with (Call_TargetMustReferToADefinedType type target) =
     errors_TargetMustReferToADefinedType"
| "spec_fails_with (Call_Target_idMustReferToADefinedTarget target) =
     errors_Target_idMustReferToADefinedTarget"
| "spec_fails_with (Call_Operator_idMustReferToADefinedOperator operator) =
     errors_Operator_idMustReferToADefinedOperator"
| "spec_fails_with (Call_RemovePredicateMustDifferFromRootPredicate root predicateToRemove) =
     errors_ForbiddenCannotRemoveRootCompoundPredicate"
| "spec_fails_with (Call_RemovePredicateCannotBeTheLastComparisonPredicate root
       predicateToRemove CompoundPredicate ComparisonPredicate) =
     errors_ForbiddenCannotRemoveLastComparisonPredicate"

section \<open>The invariants as steps on the state of the program\<close>

text \<open>
  To speak about hidden state, the invariants are written once more as steps on the state
  of the running program: the store of objects, and whatever else the collaborators keep
  for themselves (the extension of the record). A step takes the state and returns its
  result together with the state it leaves.
\<close>

record world =
  store :: heap

type_synonym ('a, 'x) step = "'x world_scheme \<Rightarrow> 'a \<times> 'x world_scheme"

definition step_return :: "'a \<Rightarrow> ('a, 'x) step" where
  "step_return a = (\<lambda>w. (a, w))"

definition step_bind :: "('a, 'x) step \<Rightarrow> ('a \<Rightarrow> ('b, 'x) step) \<Rightarrow> ('b, 'x) step" where
  "step_bind m f = (\<lambda>w. case m w of (a, w') \<Rightarrow> f a w')"

definition step_read :: "(heap \<Rightarrow> 'a) \<Rightarrow> ('a, 'x) step" where
  "step_read f = (\<lambda>w. (f (store w), w))"

text \<open>
  The calls that \<^verbatim>\<open>invariants.js\<close> makes into the injected collaborators,
  \<^verbatim>\<open>X.is(node)\<close> and the two rules, run code that is not the module's own: they are
  steps, free to change the state. The built-ins of the runtime and the Option library
  (\<^verbatim>\<open>Array.isArray\<close>, \<^verbatim>\<open>Object.keys\<close>, \<^verbatim>\<open>includes\<close>,
  \<^verbatim>\<open>JSON.stringify\<close>, \<^verbatim>\<open>isNone\<close>, \<^verbatim>\<open>value\<close>) only read.
\<close>

record 'x dataclass_step =
  is_step :: "jsval \<Rightarrow> (bool, 'x) step"

record 'x rules_step =
  predicateToRemoveIsRootPredicate_step :: "jsval \<Rightarrow> jsval \<Rightarrow> (bool, 'x) step"
  predicateToRemoveIsTheLastComparisonPredicate_step ::
    "jsval \<Rightarrow> 'x dataclass_step \<Rightarrow> 'x dataclass_step \<Rightarrow> (bool, 'x) step"

definition CompoundPredicateMustHaveAtLeastOneSubPredicate_step ::
    "jsval \<Rightarrow> (jsval promise, 'x) step" where
  "CompoundPredicateMustHaveAtLeastOneSubPredicate_step predicates =
     step_bind
       (step_read (\<lambda>h. \<not> Array_isArray h predicates \<or> array_length h predicates = 0))
       (\<lambda>empty.
          if empty
          then step_return
                 (Promise_reject (Error errors_CompoundPredicateMustHaveAtLeastOneSubPredicate None))
          else step_return (Promise_resolve JSUndefined))"

definition PredicateTypeMustBeValid_step ::
    "jsval \<Rightarrow> js_properties \<Rightarrow> (jsval promise, 'x) step" where
  "PredicateTypeMustBeValid_step type acceptedTypes =
     (if \<not> array_includes (Object_keys acceptedTypes) type
      then step_return (Promise_reject (Error errors_InvalidPredicateType None))
      else step_return (Promise_resolve JSUndefined))"

definition RootPredicateMustBeACompoundPredicate_step ::
    "jsval \<Rightarrow> 'x dataclass_step \<Rightarrow> (jsval promise, 'x) step" where
  "RootPredicateMustBeACompoundPredicate_step root CompoundPredicate =
     step_bind (is_step CompoundPredicate root)
       (\<lambda>isCompound.
          if \<not> isCompound
          then step_return (Promise_reject (Error errors_RootPredicateMustBeACompoundPredicate None))
          else step_return (Promise_resolve root))"

definition PredicateMustBeAComparisonPredicate_step ::
    "jsval \<Rightarrow> (jsval promise, 'x) step" where
  "PredicateMustBeAComparisonPredicate_step root =
     step_bind
       (step_read (\<lambda>h. \<not> is_Object root
                        \<or> get_property h root ''$_type'' \<noteq> JSString ''ComparisonPredicate''))
       (\<lambda>other.
          if other
          then step_return (Promise_reject (Error errors_PredicateMustBeAComparisonPredicate None))
          else step_return (Promise_resolve JSUndefined))"

definition AddOnlySupportsAfter_step :: "jsval \<Rightarrow> (jsval promise, 'x) step" where
  "AddOnlySupportsAfter_step how =
     (if how \<noteq> JSString ''after''
      then step_return (Promise_reject (Error errors_AddCurrentlyOnlySupportAfterInsertion None))
      else step_return (Promise_resolve JSUndefined))"

definition TargetMustReferToADefinedType_step ::
    "(jsval \<Rightarrow> string) \<Rightarrow> jsval option \<Rightarrow> target \<Rightarrow> (jsval promise, 'x) step" where
  "TargetMustReferToADefinedType_step JSON_stringify type target =
     (case type of
        None \<Rightarrow>
          step_return
            (Promise_reject (Error errors_TargetMustReferToADefinedType
               (Some (''target '' @ JSON_stringify (target_id target)
                      @ '' does not refer to a defined type, target.type_id=''
                      @ JSON_stringify (type_id target)))))
      | Some v \<Rightarrow> step_return (Promise_resolve v))"

definition Target_idMustReferToADefinedTarget_step ::
    "jsval option \<Rightarrow> ((jsval option) promise, 'x) step" where
  "Target_idMustReferToADefinedTarget_step target =
     (if target = None
      then step_return (Promise_reject (Error errors_Target_idMustReferToADefinedTarget None))
      else step_return (Promise_resolve target))"

definition Operator_idMustReferToADefinedOperator_step ::
    "jsval option \<Rightarrow> ((jsval option) promise, 'x) step" where
  "Operator_idMustReferToADefinedOperator_step operator =
     (if operator = None
      then step_return (Promise_reject (Error errors_Operator_idMustReferToADefinedOperator None))
      else step_return (Promise_resolve operator))"

definition RemovePredicateMustDifferFromRootPredicate_step ::
    "'x rules_step \<Rightarrow> jsval \<Rightarrow> jsval \<Rightarrow> (jsval promise, 'x) step" where
  "RemovePredicateMustDifferFromRootPredicate_step rules root predicateToRemove =
     step_bind (predicateToRemoveIsRootPredicate_step rules root predicateToRemove)
       (\<lambda>isRoot.
          if isRoot
          then step_return
                 (Promise_reject (Error errors_ForbiddenCannotRemoveRootCompoundPredicate None))
          else step_return (Promise_resolve predicateToRemove))"

text \<open>
  The \<^verbatim>\<open>&&\<close> of the last invariant calls the rule only when
  \<^verbatim>\<open>ComparisonPredicate.is(predicateToRemove)\<close> has answered true.
\<close>

definition RemovePredicateCannotBeTheLastComparisonPredicate_step ::
    "'x rules_step \<Rightarrow> jsval \<Rightarrow> jsval \<Rightarrow> 'x dataclass_step \<Rightarrow> 'x dataclass_step
       \<Rightarrow> (jsval promise, 'x) step" where
  "RemovePredicateCannotBeTheLastComparisonPredicate_step rules root predicateToRemove
       CompoundPredicate ComparisonPredicate =
     step_bind (is_step ComparisonPredicate predicateToRemove)
       (\<lambda>isComparison.
          if isComparison
          then step_bind
                 (predicateToRemoveIsTheLastComparisonPredicate_step rules root
                    CompoundPredicate ComparisonPredicate)
                 (\<lambda>isLast.
                    if isLast
                    then step_return
                           (Promise_reject
                              (Error errors_ForbiddenCannotRemoveLastComparisonPredicate None))
                    else step_return (Promise_resolve JSUndefined))
          else step_return (Promise_resolve JSUndefined))"

text \<open>
  A step run in a state keeps no state when it hands the state back as it got it; run
  again in the state it left, it then has the same outcome.
\<close>

definition same_state_same_outcome :: "('a, 'x) step \<Rightarrow> 'x world_scheme \<Rightarrow> bool" where
  "same_state_same_outcome p w = (snd (p w) = w \<and> fst (p (snd (p w))) = fst (p w))"

text \<open>
  Collaborators that keep no state: a dataclass and a rules module of the functional
  model above, seen as steps.
\<close>

definition dataclass_step_of :: "dataclass \<Rightarrow> 'x dataclass_step" where
  "dataclass_step_of D = \<lparr> is_step = (\<lambda>v w. (variant_is D v, w)) \<rparr>"

definition rules_step_of :: "rules \<Rightarrow> dataclass \<Rightarrow> dataclass \<Rightarrow> 'x rules_step" where
  "rules_step_of rules CompoundPredicate ComparisonPredicate =
     \<lparr> predicateToRemoveIsRootPredicate_step =
         (\<lambda>root predicateToRemove w.
            (predicateToRemoveIsRootPredicate rules root predicateToRemove, w)),
       predicateToRemoveIsTheLastComparisonPredicate_step =
         (\<lambda>root CompoundPredicate_step ComparisonPredicate_step w.
            (predicateToRemoveIsTheLastComparisonPredicate rules root
               CompoundPredicate ComparisonPredicate, w)) \<rparr>"

section \<open>A small tree to evaluate on\<close>

text \<open>
  Two roots over the same leaves: the compound at address 0 has the single child 2, the
  compound at address 4 has the children 2 and 3. Address 6 holds an object that carries
  the tag of a comparison predicate and belongs to neither tree. The dataclasses recognise
  a node by its tag.
\<close>

definition example_heap :: heap where
  "example_heap = Map.empty(
     0 \<mapsto> JSObject [(''$_type'', JSString ''CompoundPredicate''), (''predicates'', JSRef 1)],
     1 \<mapsto> JSArray [JSRef 2],
     2 \<mapsto> JSObject [(''$_type'', JSString ''ComparisonPredicate'')],
     3 \<mapsto> JSObject [(''$_type'', JSString ''ComparisonPredicate'')],
     4 \<mapsto> JSObject [(''$_type'', JSString ''CompoundPredicate''), (''predicates'', JSRef 5)],
     5 \<mapsto> JSArray [JSRef 2, JSRef 3],
     6 \<mapsto> JSObject [(''$_type'', JSString ''ComparisonPredicate'')])"

definition example_CompoundPredicate :: dataclass where
  "example_CompoundPredicate =
     \<lparr> variant_is = (\<lambda>v. get_property example_heap v ''$_type'' = JSString ''CompoundPredicate''),
       subtree = (\<lambda>v. if v = JSRef 0 then [JSRef 0, JSRef 2]
                       else if v = JSRef 4 then [JSRef 4, JSRef 2, JSRef 3]
                       else [v]) \<rparr>"

definition example_ComparisonPredicate :: dataclass where
  "example_ComparisonPredicate =
     \<lparr> variant_is = (\<lambda>v. get_property example_heap v ''$_type'' = JSString ''ComparisonPredicate''),
       subtree = (\<lambda>v. [v]) \<rparr>"

text \<open>\<^verbatim>\<open>JSON.stringify\<close> on the identifiers of the examples: strings without escapes.\<close>

fun example_JSON_stringify :: "jsval \<Rightarrow> string" where
  "example_JSON_stringify (JSString s) = [CHR 0x22] @ s @ [CHR 0x22]"
| "example_JSON_stringify v = ''null''"

section \<open>The child list of a compound predicate\<close>

lemma Array_isArray_iff:
  "Array_isArray h v = (\<exists>a xs. v = JSRef a \<and> h a = Some (JSArray xs))"
  by (cases v) (auto split: option.splits jsobj.splits)

text \<open>
  C8. \<^verbatim>\<open>CompoundPredicateMustHaveAtLeastOneSubPredicate\<close> passes on every non-empty
  array of children; it fails with the kind of its own name on the empty array and on
  every value that is not an array: \<^verbatim>\<open>undefined\<close>, \<^verbatim>\<open>null\<close>, a boolean, a
  number, a string, an object that is not an array.
\<close>

theorem CompoundPredicateMustHaveAtLeastOneSubPredicate_passes_iff:
  "(h a = Some (JSArray (x # xs)) \<longrightarrow>
      CompoundPredicateMustHaveAtLeastOneSubPredicate h (JSRef a) = Promise_resolve JSUndefined)
   \<and> (h a = Some (JSArray []) \<longrightarrow>
      CompoundPredicateMustHaveAtLeastOneSubPredicate h (JSRef a) =
        Promise_reject (Error errors_CompoundPredicateMustHaveAtLeastOneSubPredicate None))
   \<and> (\<not> Array_isArray h v \<longrightarrow>
      CompoundPredicateMustHaveAtLeastOneSubPredicate h v =
        Promise_reject (Error errors_CompoundPredicateMustHaveAtLeastOneSubPredicate None))
   \<and> \<not> Array_isArray h JSUndefined \<and> \<not> Array_isArray h JSNull
   \<and> \<not> Array_isArray h (JSBoolean b) \<and> \<not> Array_isArray h (JSNumber n)
   \<and> \<not> Array_isArray h (JSString s)
   \<and> (h a = Some (JSObject ps) \<longrightarrow> \<not> Array_isArray h (JSRef a))
   \<and> (h a = None \<longrightarrow> \<not> Array_isArray h (JSRef a))"
  by (simp add: CompoundPredicateMustHaveAtLeastOneSubPredicate_def)

theorem CompoundPredicateMustHaveAtLeastOneSubPredicate_witness:
  "CompoundPredicateMustHaveAtLeastOneSubPredicate
      (Map.empty(0 \<mapsto> JSArray [JSRef 1], 1 \<mapsto> JSObject [])) (JSRef 0)
     = Promise_resolve JSUndefined
   \<and> CompoundPredicateMustHaveAtLeastOneSubPredicate
      (Map.empty(0 \<mapsto> JSArray [])) (JSRef 0)
     = Promise_reject (Error errors_CompoundPredicateMustHaveAtLeastOneSubPredicate None)
   \<and> CompoundPredicateMustHaveAtLeastOneSubPredicate Map.empty JSNull
     = Promise_reject (Error errors_CompoundPredicateMustHaveAtLeastOneSubPredicate None)
   \<and> CompoundPredicateMustHaveAtLeastOneSubPredicate
      (Map.empty(0 \<mapsto> JSObject [(''length'', JSNumber 1)])) (JSRef 0)
     = Promise_reject (Error errors_CompoundPredicateMustHaveAtLeastOneSubPredicate None)"
  using CompoundPredicateMustHaveAtLeastOneSubPredicate_passes_iff
          [of "Map.empty(0 \<mapsto> JSArray [JSRef 1], 1 \<mapsto> JSObject [])" 0 "JSRef 1" "[]"
              JSNull True 0 "''''" "[]"]
        CompoundPredicateMustHaveAtLeastOneSubPredicate_passes_iff
          [of "Map.empty(0 \<mapsto> JSArray [])" 0 JSNull "[]" JSNull True 0 "''''" "[]"]
        CompoundPredicateMustHaveAtLeastOneSubPredicate_passes_iff
          [of Map.empty 0 JSNull "[]" JSNull True 0 "''''" "[]"]
        CompoundPredicateMustHaveAtLeastOneSubPredicate_passes_iff
          [of "Map.empty(0 \<mapsto> JSObject [(''length'', JSNumber 1)])" 0 JSNull "[]"
              "JSRef 0" True 0 "''''" "[]"]
  by simp

section \<open>The accepted predicate types\<close>

lemma PredicateTypeMustBeValid_passes_iff:
  "PredicateTypeMustBeValid type acceptedTypes =
     (if \<exists>k \<in> fst ` set acceptedTypes. type = JSString k
      then Promise_resolve JSUndefined
      else Promise_reject (Error errors_InvalidPredicateType None))"
  by (auto simp: PredicateTypeMustBeValid_def array_includes_def Object_keys_def)

text \<open>
  C10. The outcome of \<^verbatim>\<open>PredicateTypeMustBeValid\<close> depends on the type tag and on
  the set of keys of the accepted-types mapping only: two mappings with the same keys
  give the same outcome for every tag, whatever their values are.
\<close>

theorem PredicateTypeMustBeValid_depends_on_keys_only:
  "fst ` set acceptedTypes = fst ` set acceptedTypes' \<Longrightarrow>
   PredicateTypeMustBeValid type acceptedTypes = PredicateTypeMustBeValid type acceptedTypes'"
  by (simp add: PredicateTypeMustBeValid_def array_includes_def Object_keys_def image_image)

theorem PredicateTypeMustBeValid_depends_on_keys_only_witness:
  "PredicateTypeMustBeValid (JSString ''ComparisonPredicate'')
      [(''CompoundPredicate'', JSString ''CompoundPredicate''),
       (''ComparisonPredicate'', JSString ''ComparisonPredicate'')]
    = PredicateTypeMustBeValid (JSString ''ComparisonPredicate'')
      [(''ComparisonPredicate'', JSNumber 1), (''CompoundPredicate'', JSNull)]
   \<and> PredicateTypeMustBeValid (JSString ''ComparisonPredicate'')
      [(''ComparisonPredicate'', JSNumber 1), (''CompoundPredicate'', JSNull)]
    = Promise_resolve JSUndefined"
  using PredicateTypeMustBeValid_depends_on_keys_only
          [of "[(''CompoundPredicate'', JSString ''CompoundPredicate''),
                (''ComparisonPredicate'', JSString ''ComparisonPredicate'')]"
              "[(''ComparisonPredicate'', JSNumber 1), (''CompoundPredicate'', JSNull)]"
              "JSString ''ComparisonPredicate''"]
  by (simp add: PredicateTypeMustBeValid_def array_includes_def Object_keys_def insert_commute)

section \<open>The invariants over an Option\<close>

text \<open>
  C5. On an absent type \<^verbatim>\<open>TargetMustReferToADefinedType\<close> fails with the kind of its
  own name, and the message is built around the serialised \<^verbatim>\<open>target_id\<close> and
  \<^verbatim>\<open>type_id\<close> of the target it was given; on a present type it passes and yields the
  contained type.
\<close>

theorem TargetMustReferToADefinedType_outcome:
  "TargetMustReferToADefinedType JSON_stringify None target
     = Promise_reject (Error errors_TargetMustReferToADefinedType
         (Some (''target '' @ JSON_stringify (target_id target)
                @ '' does not refer to a defined type, target.type_id=''
                @ JSON_stringify (type_id target))))
   \<and> TargetMustReferToADefinedType JSON_stringify (Some v) target = Promise_resolve v"
  by (simp add: TargetMustReferToADefinedType_def)

theorem TargetMustReferToADefinedType_outcome_witness:
  "TargetMustReferToADefinedType example_JSON_stringify None
       \<lparr>target_id = JSString ''title'', type_id = JSString ''string''\<rparr>
     = Promise_reject (Error errors_TargetMustReferToADefinedType
         (Some (''target '' @ [CHR 0x22] @ ''title'' @ [CHR 0x22]
                @ '' does not refer to a defined type, target.type_id=''
                @ [CHR 0x22] @ ''string'' @ [CHR 0x22])))
   \<and> TargetMustReferToADefinedType example_JSON_stringify (Some (JSRef 7))
       \<lparr>target_id = JSString ''title'', type_id = JSString ''string''\<rparr>
     = Promise_resolve (JSRef 7)"
  using TargetMustReferToADefinedType_outcome
          [of example_JSON_stringify
              "\<lparr>target_id = JSString ''title'', type_id = JSString ''string''\<rparr>" "JSRef 7"]
  by simp

text \<open>
  C2. On an absent Option each of the three invariants fails with the kind of its own
  name. On a present Option \<^verbatim>\<open>TargetMustReferToADefinedType\<close> yields the contained
  value, whereas \<^verbatim>\<open>Target_idMustReferToADefinedTarget\<close> and
  \<^verbatim>\<open>Operator_idMustReferToADefinedOperator\<close> resolve with the Option they were given,
  still wrapped, and not with the value inside it.
\<close>

theorem Option_invariants_outcome:
  "Target_idMustReferToADefinedTarget None
     = Promise_reject (Error errors_Target_idMustReferToADefinedTarget None)
   \<and> Operator_idMustReferToADefinedOperator None
     = Promise_reject (Error errors_Operator_idMustReferToADefinedOperator None)
   \<and> (\<exists>msg. TargetMustReferToADefinedType JSON_stringify None target
          = Promise_reject (Error errors_TargetMustReferToADefinedType msg))
   \<and> TargetMustReferToADefinedType JSON_stringify (Some v) target = Promise_resolve v
   \<and> Target_idMustReferToADefinedTarget (Some v) = Promise_resolve (Some v)
   \<and> Operator_idMustReferToADefinedOperator (Some v) = Promise_resolve (Some v)
   \<and> invariant_outcome rules JSON_stringify h (Call_Target_idMustReferToADefinedTarget (Some v))
     \<noteq> Promise_resolve (Resolved v)
   \<and> invariant_outcome rules JSON_stringify h
        (Call_Operator_idMustReferToADefinedOperator (Some v))
     \<noteq> Promise_resolve (Resolved v)"
  by (simp add: Target_idMustReferToADefinedTarget_def Operator_idMustReferToADefinedOperator_def
        TargetMustReferToADefinedType_def)

section \<open>The variant of a candidate node\<close>

text \<open>
  \<^verbatim>\<open>PredicateMustBeAComparisonPredicate\<close> decides by the \<^verbatim>\<open>$_type\<close> tag of the
  node. It meets the contract the spec intends at a node exactly when the variant check of
  the tree-node implementation agrees with the tag there.
\<close>

lemma PredicateMustBeAComparisonPredicate_tag:
  "PredicateMustBeAComparisonPredicate h root =
     (if is_Object root \<and> get_property h root ''$_type'' = JSString ''ComparisonPredicate''
      then Promise_resolve JSUndefined
      else Promise_reject (Error errors_PredicateMustBeAComparisonPredicate None))"
  by (simp add: PredicateMustBeAComparisonPredicate_def)

lemma PredicateMustBeAComparisonPredicate_intended_iff:
  "(PredicateMustBeAComparisonPredicate h root
      = PredicateMustBeAComparisonPredicate_intended ComparisonPredicate root)
   = (variant_is ComparisonPredicate root
      = (is_Object root \<and> get_property h root ''$_type'' = JSString ''ComparisonPredicate''))"
  by (auto simp: PredicateMustBeAComparisonPredicate_def
        PredicateMustBeAComparisonPredicate_intended_def)

section \<open>Removing a predicate\<close>

text \<open>
  C3. \<^verbatim>\<open>RemovePredicateMustDifferFromRootPredicate\<close> fails, with
  \<^verbatim>\<open>ForbiddenCannotRemoveRootCompoundPredicate\<close>, exactly when the structural rule
  holds, and otherwise yields the candidate as it is. With the rule of the spec, which is
  identity of reference, it fails on \<open>(root, root)\<close> and passes on every candidate that
  is another value or denotes an object of another content.
\<close>

theorem RemovePredicateMustDifferFromRootPredicate_reference_identity:
  "RemovePredicateMustDifferFromRootPredicate rules_spec root root
     = Promise_reject (Error errors_ForbiddenCannotRemoveRootCompoundPredicate None)
   \<and> (candidate \<noteq> root \<longrightarrow>
        RemovePredicateMustDifferFromRootPredicate rules_spec root candidate
          = Promise_resolve candidate)
   \<and> (deref h candidate \<noteq> deref h root \<longrightarrow>
        RemovePredicateMustDifferFromRootPredicate rules_spec root candidate
          = Promise_resolve candidate)
   \<and> ((RemovePredicateMustDifferFromRootPredicate rules root candidate
          = Promise_reject (Error errors_ForbiddenCannotRemoveRootCompoundPredicate None))
        = predicateToRemoveIsRootPredicate rules root candidate)
   \<and> ((RemovePredicateMustDifferFromRootPredicate rules root candidate
          = Promise_resolve candidate)
        = (\<not> predicateToRemoveIsRootPredicate rules root candidate))
   \<and> predicateToRemoveIsRootPredicate rules_spec root candidate = (candidate = root)"
  by (auto simp: RemovePredicateMustDifferFromRootPredicate_def rules_spec_def
        spec_PredicateToRemoveIsRootPredicate_def)

theorem RemovePredicateMustDifferFromRootPredicate_witness:
  "RemovePredicateMustDifferFromRootPredicate rules_spec (JSRef 0) (JSRef 0)
     = Promise_reject (Error errors_ForbiddenCannotRemoveRootCompoundPredicate None)
   \<and> RemovePredicateMustDifferFromRootPredicate rules_spec (JSRef 0) (JSRef 2)
     = Promise_resolve (JSRef 2)
   \<and> deref example_heap (JSRef 2) \<noteq> deref example_heap (JSRef 0)
   \<and> deref example_heap (JSRef 3) = deref example_heap (JSRef 2)
   \<and> RemovePredicateMustDifferFromRootPredicate rules_spec (JSRef 2) (JSRef 3)
     = Promise_resolve (JSRef 3)"
  using RemovePredicateMustDifferFromRootPredicate_reference_identity
          [of "JSRef 0" "JSRef 2" example_heap rules_spec]
        RemovePredicateMustDifferFromRootPredicate_reference_identity
          [of "JSRef 2" "JSRef 3" example_heap rules_spec]
  by (simp add: example_heap_def)

text \<open>
  C9. The candidate reaches \<^verbatim>\<open>RemovePredicateCannotBeTheLastComparisonPredicate\<close>
  only through \<^verbatim>\<open>ComparisonPredicate.is\<close>; the structural rule gets the root and the
  two dataclasses. Two candidates that are both comparison predicates therefore have the
  same outcome under the same root, whatever the rule is.
\<close>

theorem RemovePredicateCannotBeTheLastComparisonPredicate_ignores_candidate:
  "variant_is ComparisonPredicate candidate \<Longrightarrow>
   variant_is ComparisonPredicate candidate' \<Longrightarrow>
   RemovePredicateCannotBeTheLastComparisonPredicate rules root candidate
       CompoundPredicate ComparisonPredicate
     = RemovePredicateCannotBeTheLastComparisonPredicate rules root candidate'
         CompoundPredicate ComparisonPredicate"
  by (simp add: RemovePredicateCannotBeTheLastComparisonPredicate_def)

theorem RemovePredicateCannotBeTheLastComparisonPredicate_ignores_candidate_witness:
  "variant_is example_ComparisonPredicate (JSRef 2)
   \<and> variant_is example_ComparisonPredicate (JSRef 3)
   \<and> RemovePredicateCannotBeTheLastComparisonPredicate rules_spec (JSRef 4) (JSRef 2)
         example_CompoundPredicate example_ComparisonPredicate
       = RemovePredicateCannotBeTheLastComparisonPredicate rules_spec (JSRef 4) (JSRef 3)
           example_CompoundPredicate example_ComparisonPredicate"
proof -
  have a: "variant_is example_ComparisonPredicate (JSRef 2)"
    by (simp add: example_ComparisonPredicate_def example_heap_def)
  have b: "variant_is example_ComparisonPredicate (JSRef 3)"
    by (simp add: example_ComparisonPredicate_def example_heap_def)
  show ?thesis
    using a b RemovePredicateCannotBeTheLastComparisonPredicate_ignores_candidate [OF a b]
    by simp
qed

lemma filter_neq_length: "length (filter (\<lambda>n. n \<noteq> c) xs) + count_list xs c = length xs"
  by (induction xs) auto

lemma count_list_filter: "P c \<Longrightarrow> count_list (filter P xs) c = count_list xs c"
  by (induction xs) auto

text \<open>
  C1 (as amended). For a candidate that is a comparison predicate, that is a leaf, and
  that the traversal of the root visits exactly once,
  \<^verbatim>\<open>RemovePredicateCannotBeTheLastComparisonPredicate\<close> fails with
  \<^verbatim>\<open>ForbiddenCannotRemoveLastComparisonPredicate\<close> exactly when removing the
  candidate would leave no ComparisonPredicate leaf reachable from the root, and passes
  otherwise. When the candidate is the only such leaf of the root it fails; when the root
  has two or more it passes.
\<close>

theorem RemovePredicateCannotBeTheLastComparisonPredicate_last_leaf_in_tree:
  assumes "variant_is ComparisonPredicate candidate"
      and "subtree CompoundPredicate candidate = [candidate]"
      and "count_list (subtree CompoundPredicate root) candidate = 1"
  shows "((RemovePredicateCannotBeTheLastComparisonPredicate rules_spec root candidate
             CompoundPredicate ComparisonPredicate
           = Promise_reject (Error errors_ForbiddenCannotRemoveLastComparisonPredicate None))
          = spec_PredicateToRemoveIsTheLastComparisonPredicate CompoundPredicate
              ComparisonPredicate root candidate)
       \<and> ((RemovePredicateCannotBeTheLastComparisonPredicate rules_spec root candidate
             CompoundPredicate ComparisonPredicate = Promise_resolve JSUndefined)
          = (\<not> spec_PredicateToRemoveIsTheLastComparisonPredicate CompoundPredicate
              ComparisonPredicate root candidate))
       \<and> (comparison_leaves CompoundPredicate ComparisonPredicate root = [candidate] \<longrightarrow>
            RemovePredicateCannotBeTheLastComparisonPredicate rules_spec root candidate
              CompoundPredicate ComparisonPredicate
            = Promise_reject (Error errors_ForbiddenCannotRemoveLastComparisonPredicate None))
       \<and> (2 \<le> length (comparison_leaves CompoundPredicate ComparisonPredicate root) \<longrightarrow>
            RemovePredicateCannotBeTheLastComparisonPredicate rules_spec root candidate
              CompoundPredicate ComparisonPredicate = Promise_resolve JSUndefined)"
proof -
  let ?ls = "comparison_leaves CompoundPredicate ComparisonPredicate root"
  have cnt: "count_list ?ls candidate = 1"
    using assms(1,3) by (simp add: comparison_leaves_def count_list_filter)
  have left: "leaves_left_after_removal CompoundPredicate ComparisonPredicate root candidate
                = filter (\<lambda>n. n \<noteq> candidate) ?ls"
    using assms(2) by (simp add: leaves_left_after_removal_def)
  have "length (filter (\<lambda>n. n \<noteq> candidate) ?ls) + 1 = length ?ls"
    using filter_neq_length [of candidate ?ls] cnt by simp
  then have iff: "(length ?ls = 1) = (filter (\<lambda>n. n \<noteq> candidate) ?ls = [])"
    by auto
  show ?thesis
    using assms(1) iff left
    by (auto simp: RemovePredicateCannotBeTheLastComparisonPredicate_def rules_spec_def
          spec_PredicateToRemoveIsTheLastComparisonPredicate_def)
qed

theorem RemovePredicateCannotBeTheLastComparisonPredicate_last_leaf_in_tree_witness:
  "RemovePredicateCannotBeTheLastComparisonPredicate rules_spec (JSRef 0) (JSRef 2)
       example_CompoundPredicate example_ComparisonPredicate
     = Promise_reject (Error errors_ForbiddenCannotRemoveLastComparisonPredicate None)
   \<and> leaves_left_after_removal example_CompoundPredicate example_ComparisonPredicate
       (JSRef 0) (JSRef 2) = []
   \<and> RemovePredicateCannotBeTheLastComparisonPredicate rules_spec (JSRef 4) (JSRef 3)
       example_CompoundPredicate example_ComparisonPredicate
     = Promise_resolve JSUndefined
   \<and> leaves_left_after_removal example_CompoundPredicate example_ComparisonPredicate
       (JSRef 4) (JSRef 3) = [JSRef 2]"
proof -
  have is2: "variant_is example_ComparisonPredicate (JSRef 2)"
    by (simp add: example_ComparisonPredicate_def example_heap_def)
  have is3: "variant_is example_ComparisonPredicate (JSRef 3)"
    by (simp add: example_ComparisonPredicate_def example_heap_def)
  have leaf2: "subtree example_CompoundPredicate (JSRef 2) = [JSRef 2]"
    by (simp add: example_CompoundPredicate_def)
  have leaf3: "subtree example_CompoundPredicate (JSRef 3) = [JSRef 3]"
    by (simp add: example_CompoundPredicate_def)
  have once2: "count_list (subtree example_CompoundPredicate (JSRef 0)) (JSRef 2) = 1"
    by (simp add: example_CompoundPredicate_def)
  have once3: "count_list (subtree example_CompoundPredicate (JSRef 4)) (JSRef 3) = 1"
    by (simp add: example_CompoundPredicate_def)
  have left2: "leaves_left_after_removal example_CompoundPredicate example_ComparisonPredicate
       (JSRef 0) (JSRef 2) = []"
    by (simp add: leaves_left_after_removal_def comparison_leaves_def
          example_CompoundPredicate_def example_ComparisonPredicate_def example_heap_def)
  have left3: "leaves_left_after_removal example_CompoundPredicate example_ComparisonPredicate
       (JSRef 4) (JSRef 3) = [JSRef 2]"
    by (simp add: leaves_left_after_removal_def comparison_leaves_def
          example_CompoundPredicate_def example_ComparisonPredicate_def example_heap_def)
  show ?thesis
    using RemovePredicateCannotBeTheLastComparisonPredicate_last_leaf_in_tree [OF is2 leaf2 once2] RemovePredicateCannotBeTheLastComparisonPredicate_last_leaf_in_tree [OF is3 leaf3 once3] left2 left3
    by (simp add: spec_PredicateToRemoveIsTheLastComparisonPredicate_def)
qed

text \<open>
  The claim as first stated, for every candidate that is a comparison predicate, does not
  hold: the leaf at address 3 is not reachable from the root at address 0, whose only
  leaf is at address 2. Removing it would leave that leaf in place, and yet the invariant
  fails.
\<close>

theorem RemovePredicateCannotBeTheLastComparisonPredicate_detached_leaf:
  "variant_is example_ComparisonPredicate (JSRef 3)
   \<and> RemovePredicateCannotBeTheLastComparisonPredicate rules_spec (JSRef 0) (JSRef 3)
       example_CompoundPredicate example_ComparisonPredicate
     = Promise_reject (Error errors_ForbiddenCannotRemoveLastComparisonPredicate None)
   \<and> leaves_left_after_removal example_CompoundPredicate example_ComparisonPredicate
       (JSRef 0) (JSRef 3) = [JSRef 2]
   \<and> \<not> spec_PredicateToRemoveIsTheLastComparisonPredicate example_CompoundPredicate
         example_ComparisonPredicate (JSRef 0) (JSRef 3)"
  by (simp add: RemovePredicateCannotBeTheLastComparisonPredicate_def rules_spec_def
        spec_PredicateToRemoveIsTheLastComparisonPredicate_def
        leaves_left_after_removal_def comparison_leaves_def
        example_CompoundPredicate_def example_ComparisonPredicate_def example_heap_def)

text \<open>
  The same holds for every implementation of the rule: under the root at address 0 the
  detached leaf and the leaf of the tree have one outcome, while removing the one leaves
  a leaf and removing the other leaves none.
\<close>

lemma detached_leaf_any_rules:
  "RemovePredicateCannotBeTheLastComparisonPredicate rules (JSRef 0) (JSRef 3)
       example_CompoundPredicate example_ComparisonPredicate
   = RemovePredicateCannotBeTheLastComparisonPredicate rules (JSRef 0) (JSRef 2)
       example_CompoundPredicate example_ComparisonPredicate"
  by (simp add: RemovePredicateCannotBeTheLastComparisonPredicate_def
        example_ComparisonPredicate_def example_heap_def)

section \<open>Errors and outcomes of the whole module\<close>

lemma invariant_outcome_kind:
  "invariant_outcome rules JSON_stringify h c = Promise_reject e \<Longrightarrow> kind e = spec_fails_with c"
  by (cases c)
     (auto simp: CompoundPredicateMustHaveAtLeastOneSubPredicate_def PredicateTypeMustBeValid_def
        RootPredicateMustBeACompoundPredicate_def PredicateMustBeAComparisonPredicate_def
        AddOnlySupportsAfter_def TargetMustReferToADefinedType_def
        Target_idMustReferToADefinedTarget_def Operator_idMustReferToADefinedOperator_def
        RemovePredicateMustDifferFromRootPredicate_def
        RemovePredicateCannotBeTheLastComparisonPredicate_def
        split: if_splits option.splits)

lemma spec_fails_with_inj:
  "(spec_fails_with c = spec_fails_with c') = (invariant_name c = invariant_name c')"
  by (cases c; cases c'; simp)

lemma every_kind_raised:
  "\<exists>c h e. invariant_outcome rules_spec JSON_stringify h c = Promise_reject e \<and> kind e = k"
proof (cases k)
  case errors_CompoundPredicateMustHaveAtLeastOneSubPredicate
  have "invariant_outcome rules_spec JSON_stringify Map.empty
          (Call_CompoundPredicateMustHaveAtLeastOneSubPredicate JSNull)
        = Promise_reject (Error k None)"
    by (simp add: errors_CompoundPredicateMustHaveAtLeastOneSubPredicate
          CompoundPredicateMustHaveAtLeastOneSubPredicate_def)
  then show ?thesis by (metis error.sel(1))
next
  case errors_InvalidPredicateType
  have "invariant_outcome rules_spec JSON_stringify Map.empty
          (Call_PredicateTypeMustBeValid JSNull [])
        = Promise_reject (Error k None)"
    by (simp add: errors_InvalidPredicateType PredicateTypeMustBeValid_def
          array_includes_def Object_keys_def)
  then show ?thesis by (metis error.sel(1))
next
  case errors_RootPredicateMustBeACompoundPredicate
  have "invariant_outcome rules_spec JSON_stringify example_heap
          (Call_RootPredicateMustBeACompoundPredicate (JSRef 2) example_CompoundPredicate)
        = Promise_reject (Error k None)"
    by (simp add: errors_RootPredicateMustBeACompoundPredicate
          RootPredicateMustBeACompoundPredicate_def example_CompoundPredicate_def
          example_heap_def)
  then show ?thesis by (metis error.sel(1))
next
  case errors_PredicateMustBeAComparisonPredicate
  have "invariant_outcome rules_spec JSON_stringify Map.empty
          (Call_PredicateMustBeAComparisonPredicate JSNull)
        = Promise_reject (Error k None)"
    by (simp add: errors_PredicateMustBeAComparisonPredicate
          PredicateMustBeAComparisonPredicate_def)
  then show ?thesis by (metis error.sel(1))
next
  case errors_AddCurrentlyOnlySupportAfterInsertion
  have "invariant_outcome rules_spec JSON_stringify Map.empty
          (Call_AddOnlySupportsAfter (JSString ''before''))
        = Promise_reject (Error k None)"
    by (simp add: errors_AddCurrentlyOnlySupportAfterInsertion AddOnlySupportsAfter_def)
  then show ?thesis by (metis error.sel(1))
next
  case errors_TargetMustReferToADefinedType
  have "\<exists>m. invariant_outcome rules_spec JSON_stringify Map.empty
          (Call_TargetMustReferToADefinedType None \<lparr>target_id = JSNull, type_id = JSNull\<rparr>)
        = Promise_reject (Error k m)"
    by (simp add: errors_TargetMustReferToADefinedType TargetMustReferToADefinedType_def)
  then show ?thesis by (metis error.sel(1))
next
  case errors_Target_idMustReferToADefinedTarget
  have "invariant_outcome rules_spec JSON_stringify Map.empty
          (Call_Target_idMustReferToADefinedTarget None)
        = Promise_reject (Error k None)"
    by (simp add: errors_Target_idMustReferToADefinedTarget
          Target_idMustReferToADefinedTarget_def)
  then show ?thesis by (metis error.sel(1))
next
  case errors_Operator_idMustReferToADefinedOperator
  have "invariant_outcome rules_spec JSON_stringify Map.empty
          (Call_Operator_idMustReferToADefinedOperator None)
        = Promise_reject (Error k None)"
    by (simp add: errors_Operator_idMustReferToADefinedOperator
          Operator_idMustReferToADefinedOperator_def)
  then show ?thesis by (metis error.sel(1))
next
  case errors_ForbiddenCannotRemoveRootCompoundPredicate
  have "invariant_outcome rules_spec JSON_stringify Map.empty
          (Call_RemovePredicateMustDifferFromRootPredicate (JSRef 0) (JSRef 0))
        = Promise_reject (Error k None)"
    by (simp add: errors_ForbiddenCannotRemoveRootCompoundPredicate
          RemovePredicateMustDifferFromRootPredicate_def rules_spec_def
          spec_PredicateToRemoveIsRootPredicate_def)
  then show ?thesis by (metis error.sel(1))
next
  case errors_ForbiddenCannotRemoveLastComparisonPredicate
  have "invariant_outcome rules_spec JSON_stringify example_heap
          (Call_RemovePredicateCannotBeTheLastComparisonPredicate (JSRef 0) (JSRef 2)
             example_CompoundPredicate example_ComparisonPredicate)
        = Promise_reject (Error k None)"
    by (simp add: errors_ForbiddenCannotRemoveLastComparisonPredicate
          RemovePredicateCannotBeTheLastComparisonPredicate_def rules_spec_def
          comparison_leaves_def example_CompoundPredicate_def example_ComparisonPredicate_def
          example_heap_def)
  then show ?thesis by (metis error.sel(1))
qed

text \<open>
  C6. The mapping between invariants and error kinds is one-to-one: whatever the
  arguments, the rules and the store, an invariant that fails does so with the one kind
  the spec's table gives for it; two calls have the same kind exactly when they are calls
  of the same invariant; and each of the ten kinds is the failure of some call.
\<close>

theorem invariants_error_mapping_one_to_one:
  "(invariant_outcome rules JSON_stringify h c = Promise_reject e \<longrightarrow> kind e = spec_fails_with c)
   \<and> (spec_fails_with c = spec_fails_with c') = (invariant_name c = invariant_name c')
   \<and> (\<exists>c h e. invariant_outcome rules_spec JSON_stringify h c = Promise_reject e \<and> kind e = k)"
  using invariant_outcome_kind [of rules JSON_stringify h c e] spec_fails_with_inj [of c c']
    every_kind_raised [of JSON_stringify k]
  by blast

theorem invariants_error_mapping_one_to_one_witness:
  "invariant_outcome rules_spec example_JSON_stringify example_heap
       (Call_AddOnlySupportsAfter (JSString ''before''))
     = Promise_reject (Error errors_AddCurrentlyOnlySupportAfterInsertion None)
   \<and> kind (Error errors_AddCurrentlyOnlySupportAfterInsertion None)
     = spec_fails_with (Call_AddOnlySupportsAfter (JSString ''before''))
   \<and> spec_fails_with (Call_AddOnlySupportsAfter (JSString ''before''))
     \<noteq> spec_fails_with (Call_PredicateTypeMustBeValid (JSString ''before'') [])"
proof -
  have a: "invariant_outcome rules_spec example_JSON_stringify example_heap
       (Call_AddOnlySupportsAfter (JSString ''before''))
     = Promise_reject (Error errors_AddCurrentlyOnlySupportAfterInsertion None)"
    by (simp add: AddOnlySupportsAfter_def)
  show ?thesis
    using a invariants_error_mapping_one_to_one [of rules_spec example_JSON_stringify example_heap
                "Call_AddOnlySupportsAfter (JSString ''before'')"
                "Error errors_AddCurrentlyOnlySupportAfterInsertion None"
                "Call_PredicateTypeMustBeValid (JSString ''before'') []"
                errors_InvalidPredicateType]
    by simp
qed

section \<open>Determinism and hidden state\<close>

lemma step_return_apply: "step_return a w = (a, w)"
  by (simp add: step_return_def)

lemma step_read_apply: "step_read f w = (f (store w), w)"
  by (simp add: step_read_def)

lemma step_bind_apply: "step_bind m f w = (case m w of (a, w') \<Rightarrow> f a w')"
  by (simp add: step_bind_def)

lemmas step_simps = step_return_apply step_read_apply step_bind_apply

text \<open>
  What each invariant does to the state: nothing of its own. The state it leaves is the
  state its collaborators leave.
\<close>

lemma CompoundPredicateMustHaveAtLeastOneSubPredicate_step_state:
  "snd (CompoundPredicateMustHaveAtLeastOneSubPredicate_step predicates w) = w"
  by (simp add: CompoundPredicateMustHaveAtLeastOneSubPredicate_step_def step_simps)

lemma PredicateMustBeAComparisonPredicate_step_state:
  "snd (PredicateMustBeAComparisonPredicate_step root w) = w"
  by (simp add: PredicateMustBeAComparisonPredicate_step_def step_simps)

lemma RootPredicateMustBeACompoundPredicate_step_state:
  "snd (RootPredicateMustBeACompoundPredicate_step root CompoundPredicate w)
     = snd (is_step CompoundPredicate root w)"
  by (simp add: RootPredicateMustBeACompoundPredicate_step_def step_simps split: prod.splits)

lemma RemovePredicateMustDifferFromRootPredicate_step_state:
  "snd (RemovePredicateMustDifferFromRootPredicate_step rules root predicateToRemove w)
     = snd (predicateToRemoveIsRootPredicate_step rules root predicateToRemove w)"
  by (simp add: RemovePredicateMustDifferFromRootPredicate_step_def step_simps
        split: prod.splits)

lemma RemovePredicateCannotBeTheLastComparisonPredicate_step_state:
  "snd (RemovePredicateCannotBeTheLastComparisonPredicate_step rules root predicateToRemove
          CompoundPredicate ComparisonPredicate w)
     = (case is_step ComparisonPredicate predicateToRemove w of
          (isComparison, w') \<Rightarrow>
            if isComparison
            then snd (predicateToRemoveIsTheLastComparisonPredicate_step rules root
                        CompoundPredicate ComparisonPredicate w')
            else w')"
  by (simp add: RemovePredicateCannotBeTheLastComparisonPredicate_step_def step_simps
        split: prod.splits)

text \<open>With collaborators that keep no state, the steps compute the functional model.\<close>

lemma CompoundPredicateMustHaveAtLeastOneSubPredicate_step_outcome:
  "fst (CompoundPredicateMustHaveAtLeastOneSubPredicate_step predicates w)
     = CompoundPredicateMustHaveAtLeastOneSubPredicate (store w) predicates"
  by (simp add: CompoundPredicateMustHaveAtLeastOneSubPredicate_step_def
        CompoundPredicateMustHaveAtLeastOneSubPredicate_def step_simps)

lemma PredicateMustBeAComparisonPredicate_step_outcome:
  "fst (PredicateMustBeAComparisonPredicate_step root w)
     = PredicateMustBeAComparisonPredicate (store w) root"
  by (simp add: PredicateMustBeAComparisonPredicate_step_def
        PredicateMustBeAComparisonPredicate_def step_simps)

lemma RootPredicateMustBeACompoundPredicate_step_outcome:
  "fst (RootPredicateMustBeACompoundPredicate_step root (dataclass_step_of CompoundPredicate) w)
     = RootPredicateMustBeACompoundPredicate root CompoundPredicate"
  by (simp add: RootPredicateMustBeACompoundPredicate_step_def
        RootPredicateMustBeACompoundPredicate_def dataclass_step_of_def step_simps)

lemma RemovePredicateMustDifferFromRootPredicate_step_outcome:
  "fst (RemovePredicateMustDifferFromRootPredicate_step
          (rules_step_of rules CompoundPredicate ComparisonPredicate) root predicateToRemove w)
     = RemovePredicateMustDifferFromRootPredicate rules root predicateToRemove"
  by (simp add: RemovePredicateMustDifferFromRootPredicate_step_def
        RemovePredicateMustDifferFromRootPredicate_def rules_step_of_def step_simps)

lemma RemovePredicateCannotBeTheLastComparisonPredicate_step_outcome:
  "fst (RemovePredicateCannotBeTheLastComparisonPredicate_step
          (rules_step_of rules CompoundPredicate ComparisonPredicate) root predicateToRemove
          (dataclass_step_of CompoundPredicate) (dataclass_step_of ComparisonPredicate) w)
     = RemovePredicateCannotBeTheLastComparisonPredicate rules root predicateToRemove
         CompoundPredicate ComparisonPredicate"
  by (simp add: RemovePredicateCannotBeTheLastComparisonPredicate_step_def
        RemovePredicateCannotBeTheLastComparisonPredicate_def rules_step_of_def
        dataclass_step_of_def step_simps)

lemma pure_step_outcomes:
  "fst (PredicateTypeMustBeValid_step type acceptedTypes w)
     = PredicateTypeMustBeValid type acceptedTypes"
  "fst (AddOnlySupportsAfter_step how w) = AddOnlySupportsAfter how"
  "fst (TargetMustReferToADefinedType_step JSON_stringify ty target w)
     = TargetMustReferToADefinedType JSON_stringify ty target"
  "fst (Target_idMustReferToADefinedTarget_step t w) = Target_idMustReferToADefinedTarget t"
  "fst (Operator_idMustReferToADefinedOperator_step t w)
     = Operator_idMustReferToADefinedOperator t"
  by (simp_all add: PredicateTypeMustBeValid_step_def PredicateTypeMustBeValid_def
        AddOnlySupportsAfter_step_def AddOnlySupportsAfter_def
        TargetMustReferToADefinedType_step_def TargetMustReferToADefinedType_def
        Target_idMustReferToADefinedTarget_step_def Target_idMustReferToADefinedTarget_def
        Operator_idMustReferToADefinedOperator_step_def Operator_idMustReferToADefinedOperator_def
        step_simps split: option.splits)

lemma same_state_same_outcome_iff: "same_state_same_outcome p w = (snd (p w) = w)"
  by (auto simp: same_state_same_outcome_def)

text \<open>
  C7. Every invariant is deterministic and keeps no state of its own. Whatever the state
  of the program and the arguments, and with collaborators (the two variant checks and
  the two rules) that hand the state back as they got it, each of the ten invariants
  leaves the state as it found it; run again with the same arguments in the state the
  first run left, it has the same outcome: the same pass or failure, the same error kind
  and message, the same yielded value.
\<close>

theorem invariants_keep_no_state:
  assumes CompoundPredicate_is: "\<And>v w. snd (is_step CompoundPredicate v w) = w"
      and ComparisonPredicate_is: "\<And>v w. snd (is_step ComparisonPredicate v w) = w"
      and isRoot: "\<And>r c w. snd (predicateToRemoveIsRootPredicate_step rules r c w) = w"
      and isLast: "\<And>r w. snd (predicateToRemoveIsTheLastComparisonPredicate_step rules r
                                  CompoundPredicate ComparisonPredicate w) = w"
  shows "same_state_same_outcome
           (CompoundPredicateMustHaveAtLeastOneSubPredicate_step predicates) w
       \<and> same_state_same_outcome (PredicateTypeMustBeValid_step type acceptedTypes) w
       \<and> same_state_same_outcome
           (RootPredicateMustBeACompoundPredicate_step root CompoundPredicate) w
       \<and> same_state_same_outcome (PredicateMustBeAComparisonPredicate_step root) w
       \<and> same_state_same_outcome (AddOnlySupportsAfter_step how) w
       \<and> same_state_same_outcome
           (TargetMustReferToADefinedType_step JSON_stringify resolved_type target) w
       \<and> same_state_same_outcome (Target_idMustReferToADefinedTarget_step target_option) w
       \<and> same_state_same_outcome
           (Operator_idMustReferToADefinedOperator_step operator_option) w
       \<and> same_state_same_outcome
           (RemovePredicateMustDifferFromRootPredicate_step rules root predicateToRemove) w
       \<and> same_state_same_outcome
           (RemovePredicateCannotBeTheLastComparisonPredicate_step rules root predicateToRemove
              CompoundPredicate ComparisonPredicate) w"
proof -
  have last: "snd (RemovePredicateCannotBeTheLastComparisonPredicate_step rules root
                     predicateToRemove CompoundPredicate ComparisonPredicate w) = w"
  proof (cases "is_step ComparisonPredicate predicateToRemove w")
    case (Pair isComparison w')
    then have "w' = w"
      using ComparisonPredicate_is [of predicateToRemove w] by simp
    with Pair show ?thesis
      by (simp add: RemovePredicateCannotBeTheLastComparisonPredicate_step_state isLast)
  qed
  have pure: "snd (PredicateTypeMustBeValid_step type acceptedTypes w) = w"
    "snd (AddOnlySupportsAfter_step how w) = w"
    "snd (TargetMustReferToADefinedType_step JSON_stringify resolved_type target w) = w"
    "snd (Target_idMustReferToADefinedTarget_step target_option w) = w"
    "snd (Operator_idMustReferToADefinedOperator_step operator_option w) = w"
    by (simp_all add: PredicateTypeMustBeValid_step_def AddOnlySupportsAfter_step_def
          TargetMustReferToADefinedType_step_def Target_idMustReferToADefinedTarget_step_def
          Operator_idMustReferToADefinedOperator_step_def step_simps split: option.splits)
  show ?thesis
    by (simp add: same_state_same_outcome_iff pure last
          CompoundPredicateMustHaveAtLeastOneSubPredicate_step_state
          PredicateMustBeAComparisonPredicate_step_state
          RootPredicateMustBeACompoundPredicate_step_state CompoundPredicate_is
          RemovePredicateMustDifferFromRootPredicate_step_state isRoot)
qed

theorem invariants_keep_no_state_witness:
  "RemovePredicateCannotBeTheLastComparisonPredicate_step
       (rules_step_of rules_spec example_CompoundPredicate example_ComparisonPredicate)
       (JSRef 0) (JSRef 2)
       (dataclass_step_of example_CompoundPredicate)
       (dataclass_step_of example_ComparisonPredicate) \<lparr>store = example_heap\<rparr>
     = (Promise_reject (Error errors_ForbiddenCannotRemoveLastComparisonPredicate None),
        \<lparr>store = example_heap\<rparr>)
   \<and> same_state_same_outcome
       (RemovePredicateCannotBeTheLastComparisonPredicate_step
          (rules_step_of rules_spec example_CompoundPredicate example_ComparisonPredicate)
          (JSRef 0) (JSRef 2)
          (dataclass_step_of example_CompoundPredicate)
          (dataclass_step_of example_ComparisonPredicate)) \<lparr>store = example_heap\<rparr>
   \<and> CompoundPredicateMustHaveAtLeastOneSubPredicate_step (JSRef 5) \<lparr>store = example_heap\<rparr>
     = (Promise_resolve JSUndefined, \<lparr>store = example_heap\<rparr>)
   \<and> same_state_same_outcome
       (CompoundPredicateMustHaveAtLeastOneSubPredicate_step (JSRef 5))
       \<lparr>store = example_heap\<rparr>"
proof -
  let ?CP = "dataclass_step_of example_CompoundPredicate :: unit dataclass_step"
  let ?CmpP = "dataclass_step_of example_ComparisonPredicate :: unit dataclass_step"
  let ?R = "rules_step_of rules_spec example_CompoundPredicate example_ComparisonPredicate
              :: unit rules_step"
  have a: "\<And>v w. snd (is_step ?CP v w) = w"
    by (simp add: dataclass_step_of_def)
  have b: "\<And>v w. snd (is_step ?CmpP v w) = w"
    by (simp add: dataclass_step_of_def)
  have c: "\<And>r c w. snd (predicateToRemoveIsRootPredicate_step ?R r c w) = w"
    by (simp add: rules_step_of_def)
  have d: "\<And>r w. snd (predicateToRemoveIsTheLastComparisonPredicate_step ?R r ?CP ?CmpP w) = w"
    by (simp add: rules_step_of_def)
  have last: "fst (RemovePredicateCannotBeTheLastComparisonPredicate_step ?R (JSRef 0) (JSRef 2)
                     ?CP ?CmpP \<lparr>store = example_heap\<rparr>)
                = Promise_reject (Error errors_ForbiddenCannotRemoveLastComparisonPredicate None)"
    by (simp add: RemovePredicateCannotBeTheLastComparisonPredicate_step_def step_simps
          rules_step_of_def dataclass_step_of_def rules_spec_def comparison_leaves_def
          example_CompoundPredicate_def example_ComparisonPredicate_def example_heap_def)
  have first: "fst (CompoundPredicateMustHaveAtLeastOneSubPredicate_step (JSRef 5)
                      \<lparr>store = example_heap\<rparr>) = Promise_resolve JSUndefined"
    by (simp add: CompoundPredicateMustHaveAtLeastOneSubPredicate_step_def step_simps
          example_heap_def)
  show ?thesis
    using invariants_keep_no_state [OF a b c d, of "JSRef 5" "\<lparr>store = example_heap\<rparr>"
            JSNull "[]" "JSRef 0" JSNull example_JSON_stringify None
            "\<lparr>target_id = JSNull, type_id = JSNull\<rparr>" None None "JSRef 2"]
          last first
    by (simp add: same_state_same_outcome_def prod_eq_iff)
qed

end
